theory Spec2Isabelle
  imports Complex_Main "HOL-Library.Word"
begin

section \<open>Data model\<close>

text \<open>
  The notebook is a linear script over three libraries. Its own statements are embedded
  below under the names they have in the notebook; the library calls they make are
  embedded next to them, each with a comment saying where its behaviour is taken from.
  Coordinates are exact reals. A pixel sample is a float: a finite value, taken as an
  exact real, or one of the infinities, or NaN. Rounding and overflow of floating-point
  arithmetic on finite values are not part of the model.
\<close>

datatype error =
    TransformNotInvertible
  | MaskError
  | KeyError
  | ValueError

datatype sample = Finite real | PosInf | NegInf | NaN

fun is_finite :: "sample \<Rightarrow> bool" where
  "is_finite (Finite x) = True"
| "is_finite v = False"

text \<open>Minimum and maximum of two samples; NaN wins over everything, as in the array library.\<close>

fun smin :: "sample \<Rightarrow> sample \<Rightarrow> sample" where
  "smin NaN w = NaN"
| "smin v NaN = NaN"
| "smin NegInf w = NegInf"
| "smin v NegInf = NegInf"
| "smin PosInf w = w"
| "smin v PosInf = v"
| "smin (Finite x) (Finite y) = Finite (min x y)"

fun smax :: "sample \<Rightarrow> sample \<Rightarrow> sample" where
  "smax NaN w = NaN"
| "smax v NaN = NaN"
| "smax PosInf w = PosInf"
| "smax v PosInf = PosInf"
| "smax NegInf w = w"
| "smax v NegInf = v"
| "smax (Finite x) (Finite y) = Finite (max x y)"

text \<open>Sum, difference and square of samples, and a sample divided by a count.\<close>

fun sadd :: "sample \<Rightarrow> sample \<Rightarrow> sample" where
  "sadd NaN w = NaN"
| "sadd v NaN = NaN"
| "sadd PosInf NegInf = NaN"
| "sadd NegInf PosInf = NaN"
| "sadd PosInf w = PosInf"
| "sadd v PosInf = PosInf"
| "sadd NegInf w = NegInf"
| "sadd v NegInf = NegInf"
| "sadd (Finite x) (Finite y) = Finite (x + y)"

fun sneg :: "sample \<Rightarrow> sample" where
  "sneg (Finite x) = Finite (- x)"
| "sneg PosInf = NegInf"
| "sneg NegInf = PosInf"
| "sneg NaN = NaN"

definition ssub :: "sample \<Rightarrow> sample \<Rightarrow> sample" where
  "ssub v w = sadd v (sneg w)"

fun ssquare :: "sample \<Rightarrow> sample" where
  "ssquare (Finite x) = Finite (x\<^sup>2)"
| "ssquare NaN = NaN"
| "ssquare v = PosInf"

fun sdiv_count :: "sample \<Rightarrow> nat \<Rightarrow> sample" where
  "sdiv_count (Finite x) n = Finite (x / real n)"
| "sdiv_count v n = v"

definition ssum :: "sample list \<Rightarrow> sample" where
  "ssum vs = fold sadd vs (Finite 0)"

text \<open>
  \<^verbatim>\<open>Affine(a, b, c, d, e, f)\<close>: the transform from (column, row) to (longitude, latitude),
  \<open>lon = a * col + b * row + c\<close> and \<open>lat = d * col + e * row + f\<close>.
\<close>

record Affine =
  coef_a :: real
  coef_b :: real
  coef_c :: real
  coef_d :: real
  coef_e :: real
  coef_f :: real

text \<open>The 4-tuple \<^verbatim>\<open>(lon_min, lat_min, lon_max, lat_max)\<close> unpacked from \<^verbatim>\<open>ny_shape.bounds\<close>.\<close>

record bbox =
  lon_min :: real
  lat_min :: real
  lon_max :: real
  lat_max :: real

text \<open>A window is \<^verbatim>\<open>((row_start, row_stop), (col_start, col_stop))\<close>, both ranges half open.\<close>

type_synonym window = "(int \<times> int) \<times> (int \<times> int)"

text \<open>A two-dimensional array: its shape and its cells in row-major order.\<close>

record 'a ndarray =
  nrows :: nat
  ncols :: nat
  cells :: "'a list"

definition shape :: "'a ndarray \<Rightarrow> nat \<times> nat" where
  "shape arr = (nrows arr, ncols arr)"

definition size_of :: "'a ndarray \<Rightarrow> nat" where
  "size_of arr = nrows arr * ncols arr"

text \<open>
  The opened raster dataset. Its pixel data is reached only through \<^verbatim>\<open>read\<close>, whose
  result for a window is left as a field of the record: nothing is assumed about it.
\<close>

record raster_file =
  affine :: Affine
  width :: nat
  height :: nat
  read :: "window \<Rightarrow> sample ndarray"

section \<open>Affine transforms\<close>

definition determinant :: "Affine \<Rightarrow> real" where
  "determinant t = coef_a t * coef_e t - coef_b t * coef_d t"

definition affine_apply :: "Affine \<Rightarrow> real \<times> real \<Rightarrow> real \<times> real" where
  "affine_apply t p =
     (coef_a t * fst p + coef_b t * snd p + coef_c t,
      coef_d t * fst p + coef_e t * snd p + coef_f t)"

definition affine_inverse :: "Affine \<Rightarrow> error + Affine" where
  "affine_inverse t =
     (let det = determinant t in
      if det = 0 then Inl TransformNotInvertible
      else
        let ra = coef_e t / det; rb = - coef_b t / det;
            rd = - coef_d t / det; re = coef_a t / det
        in Inr \<lparr>coef_a = ra, coef_b = rb, coef_c = - coef_c t * ra - coef_f t * rb,
                coef_d = rd, coef_e = re, coef_f = - coef_c t * rd - coef_f t * re\<rparr>)"

text \<open>
  Modelled from the spec: \<^verbatim>\<open>raster_file.index\<close> is a method of the raster library and
  is not part of the notebook. The spec describes it as the raster's
  geocoordinate-to-pixel transform, the inverse of its affine transform, and the notebook
  as returning the \<open>(row, col)\<close> indices of the pixel for \<open>(longitude, latitude)\<close>: the
  inverse transform is applied and each pixel coordinate is rounded down to the pixel that
  contains the point. A transform that cannot be inverted is an error.
\<close>

definition index :: "raster_file \<Rightarrow> real \<Rightarrow> real \<Rightarrow> error + (int \<times> int)" where
  "index rf x y =
     (case affine_inverse (affine rf) of
        Inl er \<Rightarrow> Inl er
      | Inr inv_t \<Rightarrow>
          let p = affine_apply inv_t (x, y) in Inr (\<lfloor>snd p\<rfloor>, \<lfloor>fst p\<rfloor>))"

section \<open>The bounding-box-to-window resolver\<close>

text \<open>
  \<^verbatim>\<open>
  bottom, left = raster_file.index(lon_min, lat_min)
  top, right = raster_file.index(lon_max, lat_max)
  raster_window = ((top, bottom+1), (left, right+1))
  \<close>
\<close>

definition raster_window :: "raster_file \<Rightarrow> bbox \<Rightarrow> error + window" where
  "raster_window rf bb =
     (case index rf (lon_min bb) (lat_min bb) of
        Inl er \<Rightarrow> Inl er
      | Inr (bottom, left) \<Rightarrow>
          (case index rf (lon_max bb) (lat_max bb) of
             Inl er \<Rightarrow> Inl er
           | Inr (top', right) \<Rightarrow> Inr ((top', bottom + 1), (left, right + 1))))"

text \<open>The spec's condition on a pixel window: both ranges are non-empty.\<close>

definition non_degenerate :: "window \<Rightarrow> bool" where
  "non_degenerate w = (fst (fst w) < snd (fst w) \<and> fst (snd w) < snd (snd w))"

text \<open>North-up, axis-aligned imagery: no rotation, columns run east, rows run south.\<close>

definition north_up :: "Affine \<Rightarrow> bool" where
  "north_up t = (coef_b t = 0 \<and> coef_d t = 0 \<and> 0 < coef_a t \<and> coef_e t < 0)"

section \<open>The local affine constructor\<close>

text \<open>
  \<^verbatim>\<open>
  rfa = raster_file.affine
  ny_affine = Affine(rfa.a, rfa.b, lon_min, rfa.d, rfa.e, lat_max)
  \<close>
\<close>

definition ny_affine :: "raster_file \<Rightarrow> bbox \<Rightarrow> Affine" where
  "ny_affine rf bb =
     (let rfa = affine rf in
      \<lparr>coef_a = coef_a rfa, coef_b = coef_b rfa, coef_c = lon_min bb,
       coef_d = coef_d rfa, coef_e = coef_e rfa, coef_f = lat_max bb\<rparr>)"

text \<open>
  The raster's geographic extent, as the raster library reports it for an axis-aligned
  transform: from the top-left corner \<open>(c, f)\<close> to \<open>(c + a * width, f + e * height)\<close>.
  A box is outside the extent when the two rectangles are disjoint; a window is off the
  grid when it selects no pixel of the \<open>height \<times> width\<close> pixel grid.
\<close>

definition raster_extent :: "raster_file \<Rightarrow> bbox" where
  "raster_extent rf =
     (let t = affine rf;
          x0 = coef_c t; x1 = coef_c t + coef_a t * real (width rf);
          y0 = coef_f t; y1 = coef_f t + coef_e t * real (height rf)
      in \<lparr>lon_min = min x0 x1, lat_min = min y0 y1, lon_max = max x0 x1, lat_max = max y0 y1\<rparr>)"

definition outside_extent :: "raster_file \<Rightarrow> bbox \<Rightarrow> bool" where
  "outside_extent rf bb =
     (let ext = raster_extent rf in
      lon_max bb < lon_min ext \<or> lon_max ext < lon_min bb \<or>
      lat_max bb < lat_min ext \<or> lat_max ext < lat_min bb)"

definition off_grid :: "raster_file \<Rightarrow> window \<Rightarrow> bool" where
  "off_grid rf w =
     (snd (fst w) \<le> 0 \<or> int (height rf) \<le> fst (fst w) \<or>
      snd (snd w) \<le> 0 \<or> int (width rf) \<le> fst (snd w))"

definition window_shape :: "window \<Rightarrow> nat \<times> nat" where
  "window_shape w = (nat (snd (fst w) - fst (fst w)), nat (snd (snd w) - fst (snd w)))"


section \<open>Geometry and the polygon mask\<close>

text \<open>
  A MultiPolygon is a list of polygons, a polygon a list of rings, a ring a list of
  \<open>(lon, lat)\<close> pairs. \<^verbatim>\<open>ny_shape.bounds\<close> is the smallest axis-parallel rectangle around
  all coordinates; an empty geometry has the empty tuple as bounds, and unpacking that
  into four names raises \<^verbatim>\<open>ValueError\<close>.
\<close>

type_synonym ring = "(real \<times> real) list"
type_synonym polygon = "ring list"
type_synonym multipolygon = "polygon list"

definition bounds :: "multipolygon \<Rightarrow> error + bbox" where
  "bounds g =
     (case concat (concat g) of
        [] \<Rightarrow> Inl ValueError
      | p # ps \<Rightarrow>
          Inr \<lparr>lon_min = fold min (map fst ps) (fst p), lat_min = fold min (map snd ps) (snd p),
               lon_max = fold max (map fst ps) (fst p), lat_max = fold max (map snd ps) (snd p)\<rparr>)"

text \<open>
  \<^verbatim>\<open>rasterio.features.rasterize(shapes, out_shape, transform, fill, dtype=np.uint8)\<close>
  returns an array of shape \<open>out_shape\<close>, every cell \<open>fill\<close> except where a geometry is
  burnt in, later shapes over earlier ones. Which cells a geometry covers under a
  transform is the rasterizer's rule; it is the parameter \<open>covers\<close>.
\<close>

type_synonym coverage = "Affine \<Rightarrow> multipolygon \<Rightarrow> nat \<Rightarrow> nat \<Rightarrow> bool"

definition burn :: "coverage \<Rightarrow> (multipolygon \<times> 8 word) list \<Rightarrow> Affine \<Rightarrow> 8 word
    \<Rightarrow> nat \<Rightarrow> nat \<Rightarrow> 8 word" where
  "burn covers shapes transform fill row col =
     fold (\<lambda>(g, v) acc. if covers transform g row col then v else acc) shapes fill"

definition rasterize :: "coverage \<Rightarrow> (multipolygon \<times> 8 word) list \<Rightarrow> nat \<times> nat \<Rightarrow> Affine
    \<Rightarrow> 8 word \<Rightarrow> 8 word ndarray" where
  "rasterize covers shapes out_shape transform fill =
     \<lparr>nrows = fst out_shape, ncols = snd out_shape,
      cells = map (\<lambda>i. burn covers shapes transform fill (i div snd out_shape) (i mod snd out_shape))
                [0 ..< fst out_shape * snd out_shape]\<rparr>"

text \<open>
  \<^verbatim>\<open>
  ny_mask = rasterio.features.rasterize(
      shapes=[(ny_shape, 0)], out_shape=ny_raster_array.shape,
      transform=ny_affine, fill=1, dtype=np.uint8)
  \<close>
\<close>

definition ny_mask :: "coverage \<Rightarrow> raster_file \<Rightarrow> multipolygon \<Rightarrow> bbox \<Rightarrow> sample ndarray
    \<Rightarrow> 8 word ndarray" where
  "ny_mask covers rf ny_shape bb ny_raster_array =
     rasterize covers [(ny_shape, 0)] (shape ny_raster_array) (ny_affine rf bb) 1"

section \<open>Masked statistics\<close>

definition astype_bool :: "8 word ndarray \<Rightarrow> bool ndarray" where
  "astype_bool arr = \<lparr>nrows = nrows arr, ncols = ncols arr, cells = map (\<lambda>v. v \<noteq> 0) (cells arr)\<rparr>"

record masked_array =
  ma_data :: "sample ndarray"
  ma_mask :: "bool ndarray"

text \<open>
  \<^verbatim>\<open>np.ma.array(data=..., mask=...)\<close>. The notebook makes no check of its own; the
  constructor of the array library accepts a mask of the data's shape, repeats a mask of
  one element over the data's shape, reshapes a mask with as many elements as the data,
  and raises \<^verbatim>\<open>MaskError\<close> for any other mask.
\<close>

definition ma_array :: "sample ndarray \<Rightarrow> bool ndarray \<Rightarrow> error + masked_array" where
  "ma_array dat msk =
     (if shape msk = shape dat then Inr \<lparr>ma_data = dat, ma_mask = msk\<rparr>
      else
        let nd = size_of dat; nm = size_of msk in
        if nm = 1 then
          Inr \<lparr>ma_data = dat,
               ma_mask = \<lparr>nrows = nrows dat, ncols = ncols dat,
                          cells = take nd (concat (replicate nd (cells msk)))\<rparr>\<rparr>
        else if nm = nd then
          Inr \<lparr>ma_data = dat,
               ma_mask = \<lparr>nrows = nrows dat, ncols = ncols dat, cells = cells msk\<rparr>\<rparr>
        else Inl MaskError)"

text \<open>The samples that are not masked out, in array order.\<close>

definition compressed :: "masked_array \<Rightarrow> sample list" where
  "compressed m = map fst (filter (\<lambda>p. \<not> snd p) (zip (cells (ma_data m)) (cells (ma_mask m))))"

text \<open>
  The four reductions of a masked array. When every cell is masked out each of them
  returns the library's \<^verbatim>\<open>masked\<close> constant, which carries no number: that is \<open>None\<close>.
  The minimum and the maximum of an array without any element raise \<^verbatim>\<open>ValueError\<close>.
  The mean is the sum of the cells that are not masked out over their count. The
  variance is the sum of the squared differences from the mean over the count, by the
  library's masked division, which masks a quotient that is not finite; the standard
  deviation is its square root (the population one, no degrees-of-freedom correction),
  by the library's masked square root, which masks a negative argument.
\<close>

definition ma_min :: "masked_array \<Rightarrow> error + sample option" where
  "ma_min m =
     (if cells (ma_data m) = [] then Inl ValueError
      else Inr (case compressed m of [] \<Rightarrow> None | v # vs \<Rightarrow> Some (fold smin vs v)))"

definition ma_max :: "masked_array \<Rightarrow> error + sample option" where
  "ma_max m =
     (if cells (ma_data m) = [] then Inl ValueError
      else Inr (case compressed m of [] \<Rightarrow> None | v # vs \<Rightarrow> Some (fold smax vs v)))"

definition ma_mean :: "masked_array \<Rightarrow> sample option" where
  "ma_mean m =
     (let vs = compressed m in
      if vs = [] then None else Some (sdiv_count (ssum vs) (length vs)))"

definition ma_var :: "masked_array \<Rightarrow> sample option" where
  "ma_var m =
     (case ma_mean m of
        None \<Rightarrow> None
      | Some mu \<Rightarrow>
          let vs = compressed m in
          (case ssum (map (\<lambda>v. ssquare (ssub v mu)) vs) of
             Finite x \<Rightarrow> Some (Finite (x / real (length vs)))
           | PosInf \<Rightarrow> None
           | NegInf \<Rightarrow> None
           | NaN \<Rightarrow> None))"

definition ma_std :: "masked_array \<Rightarrow> sample option" where
  "ma_std m =
     (case ma_var m of
        Some (Finite x) \<Rightarrow> (if x < 0 then None else Some (Finite (sqrt x)))
      | _ \<Rightarrow> None)"

record statistics =
  stat_min :: "sample option"
  stat_max :: "sample option"
  stat_mean :: "sample option"
  stat_std :: "sample option"

text \<open>
  \<^verbatim>\<open>
  ny_masked = np.ma.array(data=ny_raster_array, mask=ny_mask.astype(bool))
  print 'min: {}'.format(ny_masked.min())
  print 'max: {}'.format(ny_masked.max())
  print 'mean: {}'.format(ny_masked.mean())
  print 'standard deviation: {}'.format(ny_masked.std())
  \<close>
\<close>

definition ny_masked :: "sample ndarray \<Rightarrow> 8 word ndarray \<Rightarrow> error + masked_array" where
  "ny_masked ny_raster_array mask_array = ma_array ny_raster_array (astype_bool mask_array)"

definition masked_statistics :: "sample ndarray \<Rightarrow> 8 word ndarray \<Rightarrow> error + statistics" where
  "masked_statistics ny_raster_array mask_array =
     (case ny_masked ny_raster_array mask_array of
        Inl er \<Rightarrow> Inl er
      | Inr m \<Rightarrow>
          (case ma_min m of
             Inl er \<Rightarrow> Inl er
           | Inr lo \<Rightarrow>
               (case ma_max m of
                  Inl er \<Rightarrow> Inl er
                | Inr hi \<Rightarrow>
                    Inr \<lparr>stat_min = lo, stat_max = hi,
                         stat_mean = ma_mean m, stat_std = ma_std m\<rparr>)))"

text \<open>The cells a mask selects: those where it is zero.\<close>

definition selected :: "sample ndarray \<Rightarrow> 8 word ndarray \<Rightarrow> sample list" where
  "selected ny_raster_array mask_array =
     map fst (filter (\<lambda>p. snd p = 0) (zip (cells ny_raster_array) (cells mask_array)))"

section \<open>The pipeline\<close>

text \<open>The notebook's cells from the county's shape to the window, the samples and the mask.\<close>

definition window_and_mask :: "coverage \<Rightarrow> raster_file \<Rightarrow> multipolygon
    \<Rightarrow> error + (window \<times> sample ndarray \<times> 8 word ndarray)" where
  "window_and_mask covers rf ny_shape =
     (case bounds ny_shape of
        Inl er \<Rightarrow> Inl er
      | Inr bb \<Rightarrow>
          (case raster_window rf bb of
             Inl er \<Rightarrow> Inl er
           | Inr w \<Rightarrow>
               let ny_raster_array = read rf w
               in Inr (w, ny_raster_array, ny_mask covers rf ny_shape bb ny_raster_array)))"

definition compute_region_statistics :: "coverage \<Rightarrow> raster_file \<Rightarrow> multipolygon
    \<Rightarrow> error + statistics" where
  "compute_region_statistics covers rf ny_shape =
     (case window_and_mask covers rf ny_shape of
        Inl er \<Rightarrow> Inl er
      | Inr (w, ny_raster_array, mask_array) \<Rightarrow> masked_statistics ny_raster_array mask_array)"

section \<open>The county table\<close>

text \<open>
  A feature of the boundary collection: its properties and its geometry. \<^verbatim>\<open>states\<close> maps
  state codes to state names. Python's \<^verbatim>\<open>int\<close> on a string is the parameter \<open>py_int\<close>,
  \<open>None\<close> where it raises \<^verbatim>\<open>ValueError\<close>; a missing key raises \<^verbatim>\<open>KeyError\<close>.
\<close>

record feature =
  properties :: "string \<rightharpoonup> string"
  geometry :: multipolygon

definition get_county_name_from_geo_obj ::
    "(string \<Rightarrow> int option) \<Rightarrow> (int \<rightharpoonup> string) \<Rightarrow> feature \<Rightarrow> error + string" where
  "get_county_name_from_geo_obj py_int states geo_obj =
     (case properties geo_obj ''STATE'' of
        None \<Rightarrow> Inl KeyError
      | Some s \<Rightarrow>
          (case py_int s of
             None \<Rightarrow> Inl ValueError
           | Some code \<Rightarrow>
               (case states code of
                  None \<Rightarrow> Inl KeyError
                | Some state \<Rightarrow>
                    (case properties geo_obj ''NAME'' of
                       None \<Rightarrow> Inl KeyError
                     | Some county \<Rightarrow> Inr (state @ '': '' @ county)))))"

text \<open>
  The dict comprehension: the features are visited in order, each key is computed and
  the entry stored under it; an exception while computing a key ends the construction.
\<close>

fun build_counties ::
    "(string \<Rightarrow> int option) \<Rightarrow> (int \<rightharpoonup> string) \<Rightarrow> feature list \<Rightarrow> (string \<rightharpoonup> feature)
      \<Rightarrow> error + (string \<rightharpoonup> feature)" where
  "build_counties py_int states [] acc = Inr acc"
| "build_counties py_int states (county_geojson # rest) acc =
     (case get_county_name_from_geo_obj py_int states county_geojson of
        Inl er \<Rightarrow> Inl er
      | Inr k \<Rightarrow> build_counties py_int states rest (acc(k \<mapsto> county_geojson)))"

definition counties_geojson ::
    "(string \<Rightarrow> int option) \<Rightarrow> (int \<rightharpoonup> string) \<Rightarrow> feature list \<Rightarrow> error + (string \<rightharpoonup> feature)" where
  "counties_geojson py_int states features = build_counties py_int states features Map.empty"

text \<open>The last feature of a collection that has a given composite name.\<close>

definition last_named ::
    "(string \<Rightarrow> int option) \<Rightarrow> (int \<rightharpoonup> string) \<Rightarrow> feature list \<Rightarrow> string \<Rightarrow> feature option" where
  "last_named py_int states features k =
     find (\<lambda>g. get_county_name_from_geo_obj py_int states g = Inr k) (rev features)"

section \<open>Example inputs\<close>

text \<open>A read that returns zeros in the shape of the window.\<close>

definition blank :: "window \<Rightarrow> sample ndarray" where
  "blank w =
     (let h = nat (snd (fst w) - fst (fst w)); k = nat (snd (snd w) - fst (snd w))
      in \<lparr>nrows = h, ncols = k, cells = replicate (h * k) (Finite 0)\<rparr>)"

text \<open>The spec's example: a north-up raster of 0.004 degree pixels and Manhattan's box.\<close>

definition viirs :: raster_file where
  "viirs = \<lparr>affine = \<lparr>coef_a = 1 / 250, coef_b = 0, coef_c = - 180,
                        coef_d = 0, coef_e = - (1 / 250), coef_f = 75\<rparr>,
            width = 28800, height = 18000, read = blank\<rparr>"

definition manhattan :: bbox where
  "manhattan = \<lparr>lon_min = - 7403 / 100, lat_min = 4068 / 100,
                lon_max = - 7390 / 100, lat_max = 4088 / 100\<rparr>"

text \<open>A raster whose rows run north (\<open>e > 0\<close>), and a small north-up one.\<close>

definition south_up :: raster_file where
  "south_up = \<lparr>affine = \<lparr>coef_a = 1, coef_b = 0, coef_c = 0,
                           coef_d = 0, coef_e = 1, coef_f = 0\<rparr>,
               width = 10, height = 10, read = blank\<rparr>"

definition small_north_up :: raster_file where
  "small_north_up = \<lparr>affine = \<lparr>coef_a = 1, coef_b = 0, coef_c = 0,
                                 coef_d = 0, coef_e = - 1, coef_f = 10\<rparr>,
                     width = 10, height = 10, read = blank\<rparr>"

definition far_east :: bbox where
  "far_east = \<lparr>lon_min = 20, lat_min = 2, lon_max = 22, lat_max = 4\<rparr>"

text \<open>A sheared raster (\<open>b \<noteq> 0\<close>) and a box inside it.\<close>

definition sheared :: raster_file where
  "sheared = \<lparr>affine = \<lparr>coef_a = 1, coef_b = 1, coef_c = - 20,
                          coef_d = 0, coef_e = - 1, coef_f = 10\<rparr>,
              width = 30, height = 10, read = blank\<rparr>"

definition inner_box :: bbox where
  "inner_box = \<lparr>lon_min = 0, lat_min = 2, lon_max = 2, lat_max = 8\<rparr>"

text \<open>A triangle inside the small raster, and a rasterizer rule that burns the diagonal.\<close>

definition triangle :: multipolygon where
  "triangle = [[[(1, 2), (3, 2), (3, 5), (1, 2)]]]"

definition diagonal :: coverage where
  "diagonal t g row col = (row = col)"

text \<open>A 2 by 3 array of samples and masks of several shapes.\<close>

definition samples23 :: "sample ndarray" where
  "samples23 = \<lparr>nrows = 2, ncols = 3,
                 cells = [Finite 7, Finite 2, Finite 3, Finite 4, Finite 5, Finite 6]\<rparr>"

text \<open>Two samples, the first of them infinite, and a mask that selects the first.\<close>

definition samples_inf :: "sample ndarray" where
  "samples_inf = \<lparr>nrows = 1, ncols = 2, cells = [PosInf, Finite 4]\<rparr>"

definition mask_first :: "8 word ndarray" where
  "mask_first = \<lparr>nrows = 1, ncols = 2, cells = [0, 1]\<rparr>"

definition mask32 :: "8 word ndarray" where
  "mask32 = \<lparr>nrows = 3, ncols = 2, cells = [0, 1, 1, 1, 1, 1]\<rparr>"

definition mask23_one :: "8 word ndarray" where
  "mask23_one = \<lparr>nrows = 2, ncols = 3, cells = [1, 1, 0, 1, 1, 1]\<rparr>"

definition mask23_none :: "8 word ndarray" where
  "mask23_none = \<lparr>nrows = 2, ncols = 3, cells = [1, 1, 1, 1, 1, 1]\<rparr>"

definition mask22 :: "8 word ndarray" where
  "mask22 = \<lparr>nrows = 2, ncols = 2, cells = [0, 1, 1, 1]\<rparr>"

text \<open>Two states, and counties given by state code, name and a square of a given side.\<close>

definition digits2 :: "string \<Rightarrow> int option" where
  "digits2 s = (if s = ''36'' then Some 36 else if s = ''18'' then Some 18 else None)"

definition two_states :: "int \<rightharpoonup> string" where
  "two_states = [36 \<mapsto> ''New York'', 18 \<mapsto> ''Indiana'']"

definition square :: "real \<Rightarrow> multipolygon" where
  "square s = [[[(0, 0), (s, 0), (s, s), (0, s), (0, 0)]]]"

definition county :: "string \<Rightarrow> string \<Rightarrow> multipolygon \<Rightarrow> feature" where
  "county st nm g = \<lparr>properties = [''STATE'' \<mapsto> st, ''NAME'' \<mapsto> nm], geometry = g\<rparr>"

section \<open>Properties of the resolver\<close>

lemmas eval_defs = raster_window_def index_def affine_inverse_def affine_apply_def
  determinant_def Let_def

lemma index_axis_aligned:
  assumes "coef_b (affine rf) = 0" "coef_d (affine rf) = 0"
    and "coef_a (affine rf) \<noteq> 0" "coef_e (affine rf) \<noteq> 0"
  shows "index rf x y =
           Inr (\<lfloor>(y - coef_f (affine rf)) / coef_e (affine rf)\<rfloor>,
                \<lfloor>(x - coef_c (affine rf)) / coef_a (affine rf)\<rfloor>)"
proof -
  let ?t = "affine rf"
  have det: "determinant ?t = coef_a ?t * coef_e ?t"
    using assms by (simp add: determinant_def)
  have nz: "coef_a ?t * coef_e ?t \<noteq> 0"
    using assms by simp
  have col: "- (coef_c ?t * coef_e ?t / (coef_a ?t * coef_e ?t)) + coef_e ?t * x / (coef_a ?t * coef_e ?t)
               = (x - coef_c ?t) / coef_a ?t"
    using assms by (simp add: field_simps)
  have row: "- (coef_f ?t * coef_a ?t / (coef_a ?t * coef_e ?t)) + coef_a ?t * y / (coef_a ?t * coef_e ?t)
               = (y - coef_f ?t) / coef_e ?t"
    using assms by (simp add: field_simps)
  show ?thesis
    using assms nz col row
    by (simp add: index_def affine_inverse_def affine_apply_def det Let_def field_simps)
qed

lemma raster_window_axis_aligned:
  assumes "coef_b (affine rf) = 0" "coef_d (affine rf) = 0"
    and "coef_a (affine rf) \<noteq> 0" "coef_e (affine rf) \<noteq> 0"
  shows "raster_window rf bb =
           Inr ((\<lfloor>(lat_max bb - coef_f (affine rf)) / coef_e (affine rf)\<rfloor>,
                 \<lfloor>(lat_min bb - coef_f (affine rf)) / coef_e (affine rf)\<rfloor> + 1),
                (\<lfloor>(lon_min bb - coef_c (affine rf)) / coef_a (affine rf)\<rfloor>,
                 \<lfloor>(lon_max bb - coef_c (affine rf)) / coef_a (affine rf)\<rfloor> + 1))"
  by (simp add: raster_window_def index_axis_aligned [OF assms])

lemma north_up_axes:
  assumes "north_up (affine rf)"
  shows "coef_b (affine rf) = 0" "coef_d (affine rf) = 0"
    "coef_a (affine rf) \<noteq> 0" "coef_e (affine rf) \<noteq> 0"
    "0 < coef_a (affine rf)" "coef_e (affine rf) < 0"
  using assms by (auto simp: north_up_def)

text \<open>
  C1. The resolver does not compare the two rows it computes: \<open>top\<close> is always the row of
  \<open>lat_max\<close> and \<open>bottom\<close> the row of \<open>lat_min\<close>. For a north-up, axis-aligned raster
  (\<open>b = d = 0\<close>, \<open>a > 0\<close>, \<open>e < 0\<close>) and a box with \<open>lon_min < lon_max\<close> and
  \<open>lat_min < lat_max\<close> this gives \<open>top \<le> bottom\<close> and \<open>left \<le> right\<close>, and the emitted
  window \<open>((top, bottom + 1), (left, right + 1))\<close> has non-empty row and column ranges.
\<close>

theorem raster_window_north_up:
  assumes "north_up (affine rf)"
    and "lon_min bb < lon_max bb" and "lat_min bb < lat_max bb"
  shows "\<exists>t b l r.
           index rf (lon_min bb) (lat_min bb) = Inr (b, l) \<and>
           index rf (lon_max bb) (lat_max bb) = Inr (t, r) \<and>
           t \<le> b \<and> l \<le> r \<and>
           raster_window rf bb = Inr ((t, b + 1), (l, r + 1)) \<and>
           non_degenerate ((t, b + 1), (l, r + 1))"
proof -
  let ?t = "affine rf"
  note ax = north_up_axes(1-4) [OF assms(1)]
  note pos = north_up_axes(5) [OF assms(1)] and neg = north_up_axes(6) [OF assms(1)]
  have rows: "(lat_max bb - coef_f ?t) / coef_e ?t \<le> (lat_min bb - coef_f ?t) / coef_e ?t"
    using assms(3) neg by (simp add: divide_right_mono_neg)
  have cols: "(lon_min bb - coef_c ?t) / coef_a ?t \<le> (lon_max bb - coef_c ?t) / coef_a ?t"
    using assms(2) pos by (simp add: divide_right_mono)
  show ?thesis
    using floor_mono [OF rows] floor_mono [OF cols]
    by (simp add: index_axis_aligned [OF ax] raster_window_axis_aligned [OF ax] non_degenerate_def)
qed

text \<open>The spec's example: the window for Manhattan has 51 rows and 34 columns.\<close>

theorem raster_window_north_up_witness:
  "north_up (affine viirs) \<and> lon_min manhattan < lon_max manhattan \<and>
   lat_min manhattan < lat_max manhattan \<and>
   raster_window viirs manhattan = Inr ((8530, 8581), (26492, 26526)) \<and>
   non_degenerate ((8530, 8581), (26492, 26526))"
  using raster_window_north_up [of viirs manhattan]
  by (simp add: eval_defs viirs_def manhattan_def north_up_def non_degenerate_def)

text \<open>
  On a raster whose rows run north (\<open>e > 0\<close>) the row of \<open>lat_max\<close> is the larger one, and
  the window of a well-ordered box comes out with its row range empty.
\<close>

theorem raster_window_south_up_degenerate:
  "lon_min \<lparr>lon_min = 0, lat_min = 0, lon_max = 1, lat_max = 5\<rparr>
     < lon_max \<lparr>lon_min = 0, lat_min = 0, lon_max = 1, lat_max = 5\<rparr> \<and>
   lat_min \<lparr>lon_min = 0, lat_min = 0, lon_max = 1, lat_max = 5\<rparr>
     < lat_max \<lparr>lon_min = 0, lat_min = 0, lon_max = 1, lat_max = 5\<rparr> \<and>
   raster_window south_up \<lparr>lon_min = 0, lat_min = 0, lon_max = 1, lat_max = 5\<rparr>
     = Inr ((5, 1), (0, 2)) \<and>
   \<not> non_degenerate ((5, 1), (0, 2))"
  by (simp add: eval_defs south_up_def non_degenerate_def)

text \<open>
  C2. For a north-up, axis-aligned raster the window is the floor of the row of \<open>lat_max\<close>,
  the floor of the row of \<open>lat_min\<close> plus one, the floor of the column of \<open>lon_min\<close> and
  the floor of the column of \<open>lon_max\<close> plus one; the pixel of every point of the box lies
  inside it, rows and columns alike.
\<close>

theorem raster_window_covers_box:
  assumes "north_up (affine rf)"
    and "lon_min bb \<le> x" and "x \<le> lon_max bb"
    and "lat_min bb \<le> y" and "y \<le> lat_max bb"
  shows "\<exists>t b l r row col.
           raster_window rf bb = Inr ((t, b), (l, r)) \<and>
           t = \<lfloor>(lat_max bb - coef_f (affine rf)) / coef_e (affine rf)\<rfloor> \<and>
           b = \<lfloor>(lat_min bb - coef_f (affine rf)) / coef_e (affine rf)\<rfloor> + 1 \<and>
           l = \<lfloor>(lon_min bb - coef_c (affine rf)) / coef_a (affine rf)\<rfloor> \<and>
           r = \<lfloor>(lon_max bb - coef_c (affine rf)) / coef_a (affine rf)\<rfloor> + 1 \<and>
           index rf x y = Inr (row, col) \<and>
           t \<le> row \<and> row < b \<and> l \<le> col \<and> col < r"
proof -
  let ?t = "affine rf"
  note ax = north_up_axes(1-4) [OF assms(1)]
  note pos = north_up_axes(5) [OF assms(1)] and neg = north_up_axes(6) [OF assms(1)]
  have r1: "(lat_max bb - coef_f ?t) / coef_e ?t \<le> (y - coef_f ?t) / coef_e ?t"
    using assms(5) neg by (simp add: divide_right_mono_neg)
  have r2: "(y - coef_f ?t) / coef_e ?t \<le> (lat_min bb - coef_f ?t) / coef_e ?t"
    using assms(4) neg by (simp add: divide_right_mono_neg)
  have c1: "(lon_min bb - coef_c ?t) / coef_a ?t \<le> (x - coef_c ?t) / coef_a ?t"
    using assms(2) pos by (simp add: divide_right_mono)
  have c2: "(x - coef_c ?t) / coef_a ?t \<le> (lon_max bb - coef_c ?t) / coef_a ?t"
    using assms(3) pos by (simp add: divide_right_mono)
  show ?thesis
    using floor_mono [OF r1] floor_mono [OF r2] floor_mono [OF c1] floor_mono [OF c2]
    by (simp add: index_axis_aligned [OF ax] raster_window_axis_aligned [OF ax])
qed

theorem raster_window_covers_box_witness:
  "north_up (affine viirs) \<and>
   lon_min manhattan \<le> - 74 \<and> - 74 \<le> lon_max manhattan \<and>
   lat_min manhattan \<le> 407 / 10 \<and> 407 / 10 \<le> lat_max manhattan \<and>
   raster_window viirs manhattan = Inr ((8530, 8581), (26492, 26526)) \<and>
   index viirs (- 74) (407 / 10) = Inr (8575, 26500)"
  using raster_window_covers_box [of viirs manhattan "- 74" "407 / 10"]
  by (simp add: eval_defs viirs_def manhattan_def north_up_def)

text \<open>
  The column of \<open>lon_max = 3/2\<close> is 3/2: its ceiling plus one is 3, the window stops at 2.
  And on the raster whose rows run north the point \<open>(0, 2)\<close> of the box has row 2, which
  the row range from 5 to 1 does not hold.
\<close>

theorem raster_window_not_outward:
  "raster_window south_up \<lparr>lon_min = 0, lat_min = 0, lon_max = 3 / 2, lat_max = 5\<rparr>
     = Inr ((5, 1), (0, 2)) \<and>
   \<lceil>(3 / 2 - coef_c (affine south_up)) / coef_a (affine south_up)\<rceil> + 1 \<noteq> 2 \<and>
   index south_up 0 2 = Inr (2, 0) \<and> \<not> (5 \<le> (2::int) \<and> (2::int) < 1)"
  by (simp add: eval_defs south_up_def)

text \<open>
  C8. The resolver makes no check against the raster's extent and has no error for it:
  for a north-up, axis-aligned raster and a box outside the raster's extent it returns a
  window, and that window selects no pixel of the raster's grid.
\<close>

theorem raster_window_outside_extent:
  assumes "north_up (affine rf)" and "outside_extent rf bb"
  shows "\<exists>w. raster_window rf bb = Inr w \<and> off_grid rf w"
proof -
  let ?t = "affine rf"
  note ax = north_up_axes(1-4) [OF assms(1)]
  note pos = north_up_axes(5) [OF assms(1)] and neg = north_up_axes(6) [OF assms(1)]
  have xs: "coef_c ?t \<le> coef_c ?t + coef_a ?t * real (width rf)"
    using pos by simp
  have ys: "coef_f ?t + coef_e ?t * real (height rf) \<le> coef_f ?t"
    using neg by (simp add: mult_nonpos_nonneg)
  from assms(2) xs ys consider
      (west) "lon_max bb < coef_c ?t"
    | (east) "coef_c ?t + coef_a ?t * real (width rf) < lon_min bb"
    | (south) "lat_max bb < coef_f ?t + coef_e ?t * real (height rf)"
    | (north) "coef_f ?t < lat_min bb"
    by (auto simp: outside_extent_def raster_extent_def Let_def min_def max_def split: if_splits)
  then have "off_grid rf ((\<lfloor>(lat_max bb - coef_f ?t) / coef_e ?t\<rfloor>,
                 \<lfloor>(lat_min bb - coef_f ?t) / coef_e ?t\<rfloor> + 1),
                (\<lfloor>(lon_min bb - coef_c ?t) / coef_a ?t\<rfloor>,
                 \<lfloor>(lon_max bb - coef_c ?t) / coef_a ?t\<rfloor> + 1))"
  proof cases
    case west
    then have "(lon_max bb - coef_c ?t) / coef_a ?t < 0"
      using pos by (simp add: divide_neg_pos)
    then have "\<lfloor>(lon_max bb - coef_c ?t) / coef_a ?t\<rfloor> < 0"
      by (simp add: floor_less_iff)
    then have "\<lfloor>(lon_max bb - coef_c ?t) / coef_a ?t\<rfloor> + 1 \<le> 0"
      by linarith
    then show ?thesis unfolding off_grid_def fst_conv snd_conv by blast
  next
    case east
    then have "real (width rf) \<le> (lon_min bb - coef_c ?t) / coef_a ?t"
      using pos by (simp add: pos_le_divide_eq mult.commute)
    then have "int (width rf) \<le> \<lfloor>(lon_min bb - coef_c ?t) / coef_a ?t\<rfloor>"
      by (simp add: le_floor_iff)
    then show ?thesis unfolding off_grid_def fst_conv snd_conv by blast
  next
    case south
    then have "real (height rf) \<le> (lat_max bb - coef_f ?t) / coef_e ?t"
      using neg by (simp add: neg_le_divide_eq mult.commute)
    then have "int (height rf) \<le> \<lfloor>(lat_max bb - coef_f ?t) / coef_e ?t\<rfloor>"
      by (simp add: le_floor_iff)
    then show ?thesis unfolding off_grid_def fst_conv snd_conv by blast
  next
    case north
    then have "(lat_min bb - coef_f ?t) / coef_e ?t < 0"
      using neg by (simp add: divide_pos_neg)
    then have "\<lfloor>(lat_min bb - coef_f ?t) / coef_e ?t\<rfloor> < 0"
      by (simp add: floor_less_iff)
    then have "\<lfloor>(lat_min bb - coef_f ?t) / coef_e ?t\<rfloor> + 1 \<le> 0"
      by linarith
    then show ?thesis unfolding off_grid_def fst_conv snd_conv by blast
  qed
  then show ?thesis
    by (simp add: raster_window_axis_aligned [OF ax])
qed

theorem raster_window_outside_extent_witness:
  "north_up (affine small_north_up) \<and> outside_extent small_north_up far_east \<and>
   raster_window small_north_up far_east = Inr ((6, 9), (20, 23)) \<and>
   off_grid small_north_up ((6, 9), (20, 23))"
  using raster_window_outside_extent [of small_north_up far_east]
  by (simp add: eval_defs small_north_up_def far_east_def north_up_def outside_extent_def
      raster_extent_def off_grid_def)

text \<open>
  A box ten degrees east of a raster of 10 by 10 pixels: the resolver returns the window
  of columns 20 to 22 and raises nothing.
\<close>

theorem raster_window_no_extent_check:
  "outside_extent small_north_up far_east \<and>
   raster_window small_north_up far_east = Inr ((6, 9), (20, 23))"
  by (simp add: eval_defs small_north_up_def far_east_def outside_extent_def raster_extent_def)

section \<open>Properties of the local affine transform\<close>




lemma floor_diff_close:
  fixes u v :: real
  shows "\<bar>real_of_int (\<lfloor>u\<rfloor> - \<lfloor>v\<rfloor>) - (u - v)\<bar> < 1"
proof -
  have "real_of_int \<lfloor>u\<rfloor> \<le> u" "u < real_of_int \<lfloor>u\<rfloor> + 1"
       "real_of_int \<lfloor>v\<rfloor> \<le> v" "v < real_of_int \<lfloor>v\<rfloor> + 1"
    by linarith+
  then show ?thesis unfolding of_int_diff by linarith
qed

lemma scaled_floor_diff:
  fixes s p q o' :: real
  assumes "s \<noteq> 0"
  shows "\<bar>s * real_of_int (\<lfloor>(p - o') / s\<rfloor> - \<lfloor>(q - o') / s\<rfloor>) + q - p\<bar> < \<bar>s\<bar>"
proof -
  let ?u = "(p - o') / s" and ?v = "(q - o') / s"
  have "s * (?u - ?v) = p - q"
    using assms by (simp add: field_simps)
  then have "s * real_of_int (\<lfloor>?u\<rfloor> - \<lfloor>?v\<rfloor>) + q - p
               = s * (real_of_int (\<lfloor>?u\<rfloor> - \<lfloor>?v\<rfloor>) - (?u - ?v))"
    by (simp add: algebra_simps)
  then have "\<bar>s * real_of_int (\<lfloor>?u\<rfloor> - \<lfloor>?v\<rfloor>) + q - p\<bar>
               = \<bar>s\<bar> * \<bar>real_of_int (\<lfloor>?u\<rfloor> - \<lfloor>?v\<rfloor>) - (?u - ?v)\<bar>"
    by (simp add: abs_mult)
  also have "\<dots> < \<bar>s\<bar> * 1"
    using assms floor_diff_close [of ?u ?v] by (intro mult_strict_left_mono) simp_all
  finally show ?thesis by simp
qed

text \<open>
  C4. For a north-up, axis-aligned raster, a box with \<open>lon_min \<le> lon_max\<close> and
  \<open>lat_min \<le> lat_max\<close>, and a read that returns an array of the window's shape, the mask
  has at least one row and one column, and the local transform (from pixel indices to
  coordinates) sends the index \<open>(0, 0)\<close> of the mask's first pixel to
  \<open>(lon_min, lat_max)\<close> exactly and the index \<open>(ncols - 1, nrows - 1)\<close> of its last pixel
  to within \<open>\<bar>a\<bar>\<close> of \<open>lon_max\<close> and within \<open>\<bar>e\<bar>\<close> of \<open>lat_min\<close>.
\<close>

theorem local_affine_round_trip:
  assumes "north_up (affine rf)"
    and "lon_min bb \<le> lon_max bb" and "lat_min bb \<le> lat_max bb"
    and "raster_window rf bb = Inr w"
    and "shape (read rf w) = window_shape w"
  shows "let m = ny_mask covers rf ny_shape bb (read rf w);
             t = ny_affine rf bb;
             nw = affine_apply t (0, 0);
             se = affine_apply t (real (ncols m - 1), real (nrows m - 1))
         in 0 < nrows m \<and> 0 < ncols m \<and>
            nw = (lon_min bb, lat_max bb) \<and>
            \<bar>fst se - lon_max bb\<bar> < \<bar>coef_a (affine rf)\<bar> \<and>
            \<bar>snd se - lat_min bb\<bar> < \<bar>coef_e (affine rf)\<bar>"
proof -
  let ?t = "affine rf"
  let ?top = "\<lfloor>(lat_max bb - coef_f ?t) / coef_e ?t\<rfloor>"
  let ?bottom = "\<lfloor>(lat_min bb - coef_f ?t) / coef_e ?t\<rfloor>"
  let ?left = "\<lfloor>(lon_min bb - coef_c ?t) / coef_a ?t\<rfloor>"
  let ?right = "\<lfloor>(lon_max bb - coef_c ?t) / coef_a ?t\<rfloor>"
  let ?m = "ny_mask covers rf ny_shape bb (read rf w)"
  note ax = north_up_axes(1-4) [OF assms(1)]
  note pos = north_up_axes(5) [OF assms(1)] and neg = north_up_axes(6) [OF assms(1)]
  have w: "w = ((?top, ?bottom + 1), (?left, ?right + 1))"
    using assms(4) by (simp add: raster_window_axis_aligned [OF ax])
  have "(lat_max bb - coef_f ?t) / coef_e ?t \<le> (lat_min bb - coef_f ?t) / coef_e ?t"
    using assms(3) neg by (simp add: divide_right_mono_neg)
  then have rows: "?top \<le> ?bottom" by (rule floor_mono)
  have "(lon_min bb - coef_c ?t) / coef_a ?t \<le> (lon_max bb - coef_c ?t) / coef_a ?t"
    using assms(2) pos by (simp add: divide_right_mono)
  then have cols: "?left \<le> ?right" by (rule floor_mono)
  have shp: "nrows ?m = nat (?bottom + 1 - ?top)" "ncols ?m = nat (?right + 1 - ?left)"
    using assms(5) by (simp_all add: ny_mask_def rasterize_def shape_def window_shape_def w)
  have nr: "real (nrows ?m - 1) = real_of_int (?bottom - ?top)"
    using rows by (simp add: shp)
  have nc: "real (ncols ?m - 1) = real_of_int (?right - ?left)"
    using cols by (simp add: shp)
  have lon: "\<bar>coef_a ?t * real_of_int (?right - ?left) + lon_min bb - lon_max bb\<bar> < \<bar>coef_a ?t\<bar>"
    by (rule scaled_floor_diff [OF ax(3)])
  have lat: "\<bar>coef_e ?t * real_of_int (?bottom - ?top) + lat_max bb - lat_min bb\<bar> < \<bar>coef_e ?t\<bar>"
    by (rule scaled_floor_diff [OF ax(4)])
  have pos_shape: "0 < nrows ?m" "0 < ncols ?m"
    using rows cols by (simp_all add: shp)
  have se: "affine_apply (ny_affine rf bb) (real (ncols ?m - 1), real (nrows ?m - 1)) =
              (coef_a ?t * real_of_int (?right - ?left) + lon_min bb,
               coef_e ?t * real_of_int (?bottom - ?top) + lat_max bb)"
    using ax unfolding nr nc by (simp add: affine_apply_def ny_affine_def Let_def)
  have nw: "affine_apply (ny_affine rf bb) (0, 0) = (lon_min bb, lat_max bb)"
    by (simp add: affine_apply_def ny_affine_def Let_def)
  show ?thesis
    unfolding Let_def se nw fst_conv snd_conv
    using lon lat pos_shape by simp
qed

text \<open>
  Manhattan's mask has 51 rows and 34 columns; its last pixel \<open>(33, 50)\<close> is sent to
  longitude -73.898 and latitude 40.68.
\<close>

theorem local_affine_round_trip_witness:
  "north_up (affine viirs) \<and>
   lon_min manhattan \<le> lon_max manhattan \<and> lat_min manhattan \<le> lat_max manhattan \<and>
   raster_window viirs manhattan = Inr ((8530, 8581), (26492, 26526)) \<and>
   shape (read viirs ((8530, 8581), (26492, 26526))) = window_shape ((8530, 8581), (26492, 26526)) \<and>
   affine_apply (ny_affine viirs manhattan) (33, 50) = (- 7403 / 100 + 33 / 250, 4088 / 100 - 50 / 250) \<and>
   \<bar>- 7403 / 100 + 33 / 250 - lon_max manhattan\<bar> < \<bar>coef_a (affine viirs)\<bar> \<and>
   \<bar>4088 / 100 - 50 / 250 - lat_min manhattan\<bar> < \<bar>coef_e (affine viirs)\<bar>"
proof -
  have h1: "north_up (affine viirs)"
    by (simp add: viirs_def north_up_def)
  have h2: "lon_min manhattan \<le> lon_max manhattan" and h3: "lat_min manhattan \<le> lat_max manhattan"
    by (simp_all add: manhattan_def)
  have h4: "raster_window viirs manhattan = Inr ((8530, 8581), (26492, 26526))"
    by (simp add: eval_defs viirs_def manhattan_def)
  have h5: "shape (read viirs ((8530, 8581), (26492, 26526))) = window_shape ((8530, 8581), (26492, 26526))"
    by (simp add: viirs_def blank_def shape_def window_shape_def Let_def)
  show ?thesis
    using h1 h2 h3 h4 h5 local_affine_round_trip [OF h1 h2 h3 h4 h5, of "\<lambda>t g r c. True" "[]"]
    by (simp add: affine_apply_def ny_affine_def viirs_def manhattan_def)
qed

text \<open>
  On a sheared raster the window of the box is 7 rows by 9 columns. The local transform
  sends the last pixel index \<open>(8, 6)\<close> to longitude 14, and its inverse sends it to 6;
  \<open>lon_max\<close> is 2 and the pixel scale \<open>\<bar>a\<bar>\<close> is 1. The inverse of a local transform
  takes coordinates to pixel indices: applied to the pixel index \<open>(33, 50)\<close> of
  Manhattan's mask it gives \<open>(26757.5, -2280)\<close>, which is no coordinate of the box.
\<close>

theorem local_affine_round_trip_sheared:
  "raster_window sheared inner_box = Inr ((2, 9), (12, 21)) \<and>
   shape (read sheared ((2, 9), (12, 21))) = (7, 9) \<and>
   shape (ny_mask (\<lambda>t g r c. True) sheared [] inner_box (read sheared ((2, 9), (12, 21)))) = (7, 9) \<and>
   affine_apply (ny_affine sheared inner_box) (8, 6) = (14, 2) \<and>
   \<not> \<bar>14 - lon_max inner_box\<bar> < \<bar>coef_a (affine sheared)\<bar> \<and>
   affine_inverse (ny_affine sheared inner_box)
     = Inr \<lparr>coef_a = 1, coef_b = 1, coef_c = - 8, coef_d = 0, coef_e = - 1, coef_f = 8\<rparr> \<and>
   affine_apply \<lparr>coef_a = 1, coef_b = 1, coef_c = - 8, coef_d = 0, coef_e = - 1, coef_f = 8\<rparr> (8, 6) = (6, 2) \<and>
   \<not> \<bar>6 - lon_max inner_box\<bar> < \<bar>coef_a (affine sheared)\<bar> \<and>
   affine_inverse (ny_affine viirs manhattan)
     = Inr \<lparr>coef_a = 250, coef_b = 0, coef_c = 37015 / 2, coef_d = 0, coef_e = - 250, coef_f = 10220\<rparr> \<and>
   affine_apply \<lparr>coef_a = 250, coef_b = 0, coef_c = 37015 / 2, coef_d = 0, coef_e = - 250, coef_f = 10220\<rparr>
     (33, 50) = (53515 / 2, - 2280) \<and>
   \<not> \<bar>53515 / 2 - lon_max manhattan\<bar> < \<bar>coef_a (affine viirs)\<bar> \<and>
   \<not> \<bar>- 2280 - lat_min manhattan\<bar> < \<bar>coef_e (affine viirs)\<bar>"
  by (simp add: eval_defs sheared_def inner_box_def viirs_def manhattan_def blank_def shape_def
      ny_mask_def rasterize_def ny_affine_def)

section \<open>Properties of the masked statistics\<close>

lemmas stat_defs = masked_statistics_def ny_masked_def ma_array_def astype_bool_def shape_def
  size_of_def compressed_def ma_min_def ma_max_def ma_mean_def ma_var_def ma_std_def
  ssum_def ssub_def Let_def

lemma ny_masked_same_shape:
  assumes "shape mask_array = shape dat"
  shows "ny_masked dat mask_array = Inr \<lparr>ma_data = dat, ma_mask = astype_bool mask_array\<rparr>"
  using assms by (simp add: ny_masked_def ma_array_def astype_bool_def shape_def)

lemma compressed_selected:
  "compressed \<lparr>ma_data = dat, ma_mask = astype_bool mask_array\<rparr> = selected dat mask_array"
proof -
  have "filter (\<lambda>p. \<not> snd p) (zip xs (map (\<lambda>v. v \<noteq> 0) ys)) =
          map (\<lambda>p. (fst p, snd p \<noteq> 0)) (filter (\<lambda>p. snd p = 0) (zip xs ys))"
    for xs :: "sample list" and ys :: "8 word list"
    by (induction xs ys rule: list_induct2') simp_all
  then show ?thesis
    by (simp add: compressed_def selected_def astype_bool_def comp_def)
qed

text \<open>
  C5. The aggregator has no shape check of its own. It fails with the array library's
  \<^verbatim>\<open>MaskError\<close> exactly when the mask's shape differs from the samples' shape, the mask
  has more or fewer than one element, and the element counts differ; its only other
  failure is the \<^verbatim>\<open>ValueError\<close> of a samples array without elements. For identical
  shapes it never fails with \<^verbatim>\<open>MaskError\<close>. A mask of another shape with the same number
  of elements is reshaped and the statistics are computed.
\<close>

theorem masked_statistics_error_iff:
  "(masked_statistics dat mask_array = Inl MaskError) =
     (shape mask_array \<noteq> shape dat \<and>
      size_of mask_array \<noteq> 1 \<and> size_of mask_array \<noteq> size_of dat) \<and>
   (masked_statistics dat mask_array = Inl er \<longrightarrow>
      er = MaskError \<or> (er = ValueError \<and> cells dat = []))"
  by (auto simp: masked_statistics_def ny_masked_def ma_array_def astype_bool_def shape_def
      size_of_def ma_min_def ma_max_def Let_def split: if_splits)

theorem masked_statistics_error_iff_witness:
  "masked_statistics samples23 mask22 = Inl MaskError \<and>
   shape mask22 \<noteq> shape samples23 \<and> size_of mask22 \<noteq> 1 \<and> size_of mask22 \<noteq> size_of samples23"
  using masked_statistics_error_iff [of samples23 mask22 MaskError]
  by (simp add: shape_def size_of_def samples23_def mask22_def)

text \<open>
  Samples of shape 2 by 3 with a mask of shape 3 by 2 that selects the first cell: the
  shapes differ and the statistics of that one cell are returned.
\<close>

theorem masked_statistics_reshapes:
  "shape mask32 \<noteq> shape samples23 \<and>
   masked_statistics samples23 mask32 =
     Inr \<lparr>stat_min = Some (Finite 7), stat_max = Some (Finite 7),
          stat_mean = Some (Finite 7), stat_std = Some (Finite 0)\<rparr>"
  by (simp add: stat_defs samples23_def mask32_def)

text \<open>
  C6. When the samples array has elements and the mask has its shape and selects no
  cell, the aggregator raises no error: minimum, maximum, mean and standard deviation are
  each the library's \<^verbatim>\<open>masked\<close> constant, which is not a number and not NaN.
\<close>

theorem masked_statistics_empty:
  assumes "shape mask_array = shape dat" and "selected dat mask_array = []"
    and "cells dat \<noteq> []"
  shows "masked_statistics dat mask_array =
           Inr \<lparr>stat_min = None, stat_max = None, stat_mean = None, stat_std = None\<rparr>"
  using ny_masked_same_shape [OF assms(1)] compressed_selected [of dat mask_array] assms(2,3)
  by (simp add: masked_statistics_def ma_min_def ma_max_def ma_mean_def ma_var_def
        ma_std_def ssum_def ssub_def)

theorem masked_statistics_empty_witness:
  "shape mask23_none = shape samples23 \<and> selected samples23 mask23_none = [] \<and>
   cells samples23 \<noteq> [] \<and>
   masked_statistics samples23 mask23_none =
     Inr \<lparr>stat_min = None, stat_max = None, stat_mean = None, stat_std = None\<rparr>"
proof -
  have h1: "shape mask23_none = shape samples23"
    by (simp add: shape_def samples23_def mask23_none_def)
  have h2: "selected samples23 mask23_none = []"
    by (simp add: selected_def samples23_def mask23_none_def)
  have h3: "cells samples23 \<noteq> []"
    by (simp add: samples23_def)
  show ?thesis using h1 h2 h3 masked_statistics_empty [OF h1 h2 h3] by simp
qed

text \<open>A mask of ones over six samples selects nothing, and the result is not an error.\<close>

theorem masked_statistics_no_empty_error:
  "selected samples23 mask23_none = [] \<and>
   masked_statistics samples23 mask23_none =
     Inr \<lparr>stat_min = None, stat_max = None, stat_mean = None, stat_std = None\<rparr>"
  by (simp add: stat_defs selected_def samples23_def mask23_none_def)

text \<open>
  C7. When the mask has the samples' shape and selects exactly one cell, minimum, maximum
  and mean are that cell's value; the standard deviation is 0 when the value is finite,
  and the library's \<^verbatim>\<open>masked\<close> constant when it is an infinity or NaN.
\<close>

theorem masked_statistics_single_cell:
  assumes "shape mask_array = shape dat" and "selected dat mask_array = [v]"
  shows "masked_statistics dat mask_array =
           Inr \<lparr>stat_min = Some v, stat_max = Some v, stat_mean = Some v,
                stat_std = (if is_finite v then Some (Finite 0) else None)\<rparr>"
proof -
  have "cells dat \<noteq> []"
    using assms(2) by (auto simp: selected_def)
  then show ?thesis
    using ny_masked_same_shape [OF assms(1)] compressed_selected [of dat mask_array] assms(2)
    by (cases v)
      (simp_all add: masked_statistics_def ma_min_def ma_max_def ma_mean_def ma_var_def
        ma_std_def ssum_def ssub_def)
qed

theorem masked_statistics_single_cell_witness:
  "shape mask23_one = shape samples23 \<and> selected samples23 mask23_one = [Finite 3] \<and>
   masked_statistics samples23 mask23_one =
     Inr \<lparr>stat_min = Some (Finite 3), stat_max = Some (Finite 3),
          stat_mean = Some (Finite 3), stat_std = Some (Finite 0)\<rparr>"
proof -
  have h1: "shape mask23_one = shape samples23"
    by (simp add: shape_def samples23_def mask23_one_def)
  have h2: "selected samples23 mask23_one = [Finite 3]"
    by (simp add: selected_def samples23_def mask23_one_def)
  show ?thesis using h1 h2 masked_statistics_single_cell [OF h1 h2] by simp
qed

text \<open>
  One selected cell that is infinite: minimum, maximum and mean are infinite, but the
  difference from the mean is NaN, the variance is masked, and the standard deviation is
  the masked constant, not 0.
\<close>

theorem masked_statistics_infinite_cell:
  "shape mask_first = shape samples_inf \<and> selected samples_inf mask_first = [PosInf] \<and>
   masked_statistics samples_inf mask_first =
     Inr \<lparr>stat_min = Some PosInf, stat_max = Some PosInf, stat_mean = Some PosInf,
          stat_std = None\<rparr> \<and>
   (None :: sample option) \<noteq> Some (Finite 0)"
  by (simp add: stat_defs selected_def samples_inf_def mask_first_def)

section \<open>Properties of the pipeline\<close>

text \<open>
  C9. Whenever the pipeline produces a window, samples and a mask, the samples are the
  array read for that window and the mask has their shape, so the masked array is built
  without reshaping; and no run of the pipeline ends in the error for incompatible
  shapes.
\<close>

theorem mask_shape_matches:
  "(window_and_mask covers rf ny_shape = Inr (w, ny_raster_array, mask_array) \<longrightarrow>
      ny_raster_array = read rf w \<and>
      shape mask_array = shape ny_raster_array \<and>
      ny_masked ny_raster_array mask_array =
        Inr \<lparr>ma_data = ny_raster_array, ma_mask = astype_bool mask_array\<rparr>) \<and>
   compute_region_statistics covers rf ny_shape \<noteq> Inl MaskError"
proof -
  have run: "ny_raster_array = read rf w \<and> shape mask_array = shape ny_raster_array"
    if "window_and_mask covers rf ny_shape = Inr (w, ny_raster_array, mask_array)"
    for w ny_raster_array mask_array
    using that
    by (auto simp: window_and_mask_def Let_def ny_mask_def rasterize_def shape_def
        split: sum.splits)
  have "compute_region_statistics covers rf ny_shape \<noteq> Inl MaskError"
  proof (cases "window_and_mask covers rf ny_shape")
    case (Inl er)
    then have "er \<noteq> MaskError"
      by (auto simp: window_and_mask_def bounds_def raster_window_def index_def
          affine_inverse_def Let_def split: sum.splits list.splits if_splits prod.splits)
    with Inl show ?thesis by (simp add: compute_region_statistics_def)
  next
    case (Inr r)
    obtain w' arr m where r: "r = (w', arr, m)" by (cases r) auto
    from run [of w' arr m] Inr r have "shape m = shape arr" by simp
    from ny_masked_same_shape [OF this] Inr r show ?thesis
      by (simp add: compute_region_statistics_def masked_statistics_def ma_min_def ma_max_def)
  qed
  with run ny_masked_same_shape show ?thesis by blast
qed

text \<open>A triangle on the small raster: the window is 4 rows by 3 columns, and so is the mask.\<close>

theorem mask_shape_matches_witness:
  "window_and_mask diagonal small_north_up triangle =
     Inr (((5, 9), (1, 4)), blank ((5, 9), (1, 4)),
          ny_mask diagonal small_north_up triangle
            \<lparr>lon_min = 1, lat_min = 2, lon_max = 3, lat_max = 5\<rparr> (blank ((5, 9), (1, 4)))) \<and>
   shape (ny_mask diagonal small_north_up triangle
            \<lparr>lon_min = 1, lat_min = 2, lon_max = 3, lat_max = 5\<rparr> (blank ((5, 9), (1, 4)))) = (4, 3) \<and>
   shape (blank ((5, 9), (1, 4))) = (4, 3) \<and>
   compute_region_statistics diagonal small_north_up triangle \<noteq> Inl MaskError"
proof -
  have run: "window_and_mask diagonal small_north_up triangle =
     Inr (((5, 9), (1, 4)), blank ((5, 9), (1, 4)),
          ny_mask diagonal small_north_up triangle
            \<lparr>lon_min = 1, lat_min = 2, lon_max = 3, lat_max = 5\<rparr> (blank ((5, 9), (1, 4))))"
    by (simp add: window_and_mask_def bounds_def triangle_def eval_defs small_north_up_def)
  have shp: "shape (blank ((5, 9), (1, 4))) = (4, 3)"
    by (simp add: blank_def shape_def Let_def)
  have rd: "read small_north_up = blank"
    by (simp add: small_north_up_def)
  show ?thesis
    using run shp
      mask_shape_matches [of diagonal small_north_up triangle "((5, 9), (1, 4))"
        "blank ((5, 9), (1, 4))"
        "ny_mask diagonal small_north_up triangle
            \<lparr>lon_min = 1, lat_min = 2, lon_max = 3, lat_max = 5\<rparr> (blank ((5, 9), (1, 4)))"]
    by (simp add: rd)
qed

section \<open>Properties of the county table\<close>

lemma find_snoc:
  "find P (xs @ [x]) =
     (case find P xs of None \<Rightarrow> (if P x then Some x else None) | Some y \<Rightarrow> Some y)"
  by (induction xs) simp_all

lemma build_counties_last:
  assumes "\<forall>g \<in> set features. \<exists>k. get_county_name_from_geo_obj py_int states g = Inr k"
  shows "\<exists>m. build_counties py_int states features acc = Inr m \<and>
           (\<forall>k. m k = (case last_named py_int states features k of
                          None \<Rightarrow> acc k | Some g \<Rightarrow> Some g))"
  using assms
proof (induction features arbitrary: acc)
  case Nil
  then show ?case by (simp add: last_named_def)
next
  case (Cons g rest)
  from Cons.prems obtain k0 where k0: "get_county_name_from_geo_obj py_int states g = Inr k0"
    by auto
  from Cons.prems have rest: "\<forall>g \<in> set rest. \<exists>k. get_county_name_from_geo_obj py_int states g = Inr k"
    by simp
  from Cons.IH [OF rest, of "acc(k0 \<mapsto> g)"] obtain m where
    m: "build_counties py_int states rest (acc(k0 \<mapsto> g)) = Inr m"
    and look: "\<forall>k. m k = (case last_named py_int states rest k of
                          None \<Rightarrow> (acc(k0 \<mapsto> g)) k | Some g' \<Rightarrow> Some g')"
    by blast
  have "m k = (case last_named py_int states (g # rest) k of None \<Rightarrow> acc k | Some g' \<Rightarrow> Some g')" for k
    using look k0 by (auto simp: last_named_def find_snoc split: option.splits)
  then show ?case using m k0 by simp
qed

text \<open>
  C10. When every feature's composite name can be computed, building the table raises
  nothing, whether or not names repeat, and looking a name up in the table gives the
  last feature of the collection that has this name: a later feature with the same state
  and county name replaces the earlier one.
\<close>

theorem counties_geojson_last_wins:
  assumes "\<forall>g \<in> set features. \<exists>k. get_county_name_from_geo_obj py_int states g = Inr k"
  shows "\<exists>m. counties_geojson py_int states features = Inr m \<and>
           (\<forall>k. m k = last_named py_int states features k)"
proof -
  from build_counties_last [OF assms, of Map.empty] obtain m where
    m: "build_counties py_int states features Map.empty = Inr m"
    and look: "\<forall>k. m k = (case last_named py_int states features k of
                          None \<Rightarrow> None | Some g \<Rightarrow> Some g)"
    by blast
  have "m k = last_named py_int states features k" for k
    using look by (cases "last_named py_int states features k") simp_all
  then show ?thesis using m by (simp add: counties_geojson_def)
qed

text \<open>
  Two features named Orange in New York with one from Indiana between them: the table
  holds the second New York feature.
\<close>

theorem counties_geojson_last_wins_witness:
  "get_county_name_from_geo_obj digits2 two_states (county ''36'' ''Orange'' (square 1))
     = Inr ''New York: Orange'' \<and>
   get_county_name_from_geo_obj digits2 two_states (county ''18'' ''Orange'' (square 2))
     = Inr ''Indiana: Orange'' \<and>
   get_county_name_from_geo_obj digits2 two_states (county ''36'' ''Orange'' (square 3))
     = Inr ''New York: Orange'' \<and>
   (\<exists>m. counties_geojson digits2 two_states
          [county ''36'' ''Orange'' (square 1), county ''18'' ''Orange'' (square 2),
           county ''36'' ''Orange'' (square 3)] = Inr m \<and>
        m ''New York: Orange'' = Some (county ''36'' ''Orange'' (square 3)) \<and>
        m ''Indiana: Orange'' = Some (county ''18'' ''Orange'' (square 2)))"
proof -
  let ?fs = "[county ''36'' ''Orange'' (square 1), county ''18'' ''Orange'' (square 2),
              county ''36'' ''Orange'' (square 3)]"
  have n1: "get_county_name_from_geo_obj digits2 two_states (county ''36'' ''Orange'' g)
              = Inr ''New York: Orange''" for g
    by (simp add: get_county_name_from_geo_obj_def digits2_def two_states_def county_def)
  have n2: "get_county_name_from_geo_obj digits2 two_states (county ''18'' ''Orange'' g)
              = Inr ''Indiana: Orange''" for g
    by (simp add: get_county_name_from_geo_obj_def digits2_def two_states_def county_def)
  have names: "\<forall>g \<in> set ?fs. \<exists>k. get_county_name_from_geo_obj digits2 two_states g = Inr k"
    by (simp add: n1 n2)
  from counties_geojson_last_wins [OF names] obtain m where
    m: "counties_geojson digits2 two_states ?fs = Inr m"
    and look: "\<forall>k. m k = last_named digits2 two_states ?fs k"
    by blast
  have "m ''New York: Orange'' = Some (county ''36'' ''Orange'' (square 3))"
    using look by (simp add: last_named_def n1 n2)
  moreover have "m ''Indiana: Orange'' = Some (county ''18'' ''Orange'' (square 2))"
    using look by (simp add: last_named_def n1 n2)
  ultimately show ?thesis using n1 n2 m by blast
qed

end
